theory Spec2Isabelle
  imports Complex_Main "HOL-Library.Word" "HOL-Library.Char_ord"
begin

section \<open>include/leveldb/statistics.h: identifiers and their names\<close>

subsection \<open>The enumeration Tickers\<close>

text \<open>
  The C++ enumeration, one constructor per enumerator, the terminal
  \<open>TICKER_ENUM_MAX\<close> included. \<open>Tickers_val\<close> is the integer the header assigns
  to each enumerator.
\<close>

datatype Tickers =
    BLOCK_CACHE_MISS
  | BLOCK_CACHE_HIT
  | BLOOM_FILTER_USEFUL
  | COMPACTION_KEY_DROP_NEWER_ENTRY
  | COMPACTION_KEY_DROP_OBSOLETE
  | COMPACTION_KEY_DROP_USER
  | NUMBER_KEYS_WRITTEN
  | NUMBER_KEYS_READ
  | BYTES_WRITTEN
  | BYTES_READ
  | NO_FILE_CLOSES
  | NO_FILE_OPENS
  | NO_FILE_ERRORS
  | STALL_L0_SLOWDOWN_MICROS
  | STALL_MEMTABLE_COMPACTION_MICROS
  | STALL_L0_NUM_FILES_MICROS
  | RATE_LIMIT_DELAY_MILLIS
  | NO_ITERATORS
  | NUMBER_MULTIGET_CALLS
  | NUMBER_MULTIGET_KEYS_READ
  | NUMBER_MULTIGET_BYTES_READ
  | TICKER_ENUM_MAX

fun Tickers_val :: "Tickers \<Rightarrow> int" where
  "Tickers_val BLOCK_CACHE_MISS = 0"
| "Tickers_val BLOCK_CACHE_HIT = 1"
| "Tickers_val BLOOM_FILTER_USEFUL = 2"
| "Tickers_val COMPACTION_KEY_DROP_NEWER_ENTRY = 3"
| "Tickers_val COMPACTION_KEY_DROP_OBSOLETE = 4"
| "Tickers_val COMPACTION_KEY_DROP_USER = 5"
| "Tickers_val NUMBER_KEYS_WRITTEN = 6"
| "Tickers_val NUMBER_KEYS_READ = 7"
| "Tickers_val BYTES_WRITTEN = 8"
| "Tickers_val BYTES_READ = 9"
| "Tickers_val NO_FILE_CLOSES = 10"
| "Tickers_val NO_FILE_OPENS = 11"
| "Tickers_val NO_FILE_ERRORS = 12"
| "Tickers_val STALL_L0_SLOWDOWN_MICROS = 13"
| "Tickers_val STALL_MEMTABLE_COMPACTION_MICROS = 14"
| "Tickers_val STALL_L0_NUM_FILES_MICROS = 15"
| "Tickers_val RATE_LIMIT_DELAY_MILLIS = 16"
| "Tickers_val NO_ITERATORS = 17"
| "Tickers_val NUMBER_MULTIGET_CALLS = 18"
| "Tickers_val NUMBER_MULTIGET_KEYS_READ = 19"
| "Tickers_val NUMBER_MULTIGET_BYTES_READ = 20"
| "Tickers_val TICKER_ENUM_MAX = 21"

text \<open>
  \<open>std::vector<std::pair<Tickers, std::string>>\<close>: a list of pairs, in the order of
  the initialiser list, with the strings exactly as the header spells them.
\<close>

definition TickersNameMap :: "(Tickers \<times> string) list" where
  "TickersNameMap =
    [(BLOCK_CACHE_MISS, ''levledb.block.cache.miss''),
     (BLOCK_CACHE_HIT, ''rocksdb.block.cache.hit''),
     (BLOOM_FILTER_USEFUL, ''rocksdb.bloom.filter.useful''),
     (COMPACTION_KEY_DROP_NEWER_ENTRY, ''rocksdb.compaction.key.drop.new''),
     (COMPACTION_KEY_DROP_OBSOLETE, ''rocksdb.compaction.key.drop.obsolete''),
     (COMPACTION_KEY_DROP_USER, ''rocksdb.compaction.key.drop.user''),
     (NUMBER_KEYS_WRITTEN, ''rocksdb.number.keys.written''),
     (NUMBER_KEYS_READ, ''rocksdb.number.keys.read''),
     (BYTES_WRITTEN, ''rocksdb.bytes.written''),
     (BYTES_READ, ''rocksdb.bytes.read''),
     (NO_FILE_CLOSES, ''rocksdb.no.file.closes''),
     (NO_FILE_OPENS, ''rocksdb.no.file.opens''),
     (NO_FILE_ERRORS, ''rocksdb.no.file.errors''),
     (STALL_L0_SLOWDOWN_MICROS, ''rocksdb.l0.slowdown.micros''),
     (STALL_MEMTABLE_COMPACTION_MICROS, ''rocksdb.memtable.compaction.micros''),
     (STALL_L0_NUM_FILES_MICROS, ''rocksdb.l0.num.files.stall.micros''),
     (RATE_LIMIT_DELAY_MILLIS, ''rocksdb.rate.limit.dleay.millis''),
     (NO_ITERATORS, ''rocksdb.num.iterators''),
     (NUMBER_MULTIGET_CALLS, ''rocksdb.number.multiget.get''),
     (NUMBER_MULTIGET_KEYS_READ, ''rocksdb.number.multiget.keys.read''),
     (NUMBER_MULTIGET_BYTES_READ, ''rocksdb.number.multiget.bytes.read'')]"

subsection \<open>The enumeration Histograms\<close>

datatype Histograms =
    DB_GET
  | DB_WRITE
  | COMPACTION_TIME
  | TABLE_SYNC_MICROS
  | COMPACTION_OUTFILE_SYNC_MICROS
  | WAL_FILE_SYNC_MICROS
  | MANIFEST_FILE_SYNC_MICROS
  | TABLE_OPEN_IO_MICROS
  | DB_MULTIGET
  | HISTOGRAM_ENUM_MAX

fun Histograms_val :: "Histograms \<Rightarrow> int" where
  "Histograms_val DB_GET = 0"
| "Histograms_val DB_WRITE = 1"
| "Histograms_val COMPACTION_TIME = 2"
| "Histograms_val TABLE_SYNC_MICROS = 3"
| "Histograms_val COMPACTION_OUTFILE_SYNC_MICROS = 4"
| "Histograms_val WAL_FILE_SYNC_MICROS = 5"
| "Histograms_val MANIFEST_FILE_SYNC_MICROS = 6"
| "Histograms_val TABLE_OPEN_IO_MICROS = 7"
| "Histograms_val DB_MULTIGET = 8"
| "Histograms_val HISTOGRAM_ENUM_MAX = 9"

definition HistogramsNameMap :: "(Histograms \<times> string) list" where
  "HistogramsNameMap =
    [(DB_GET, ''rocksdb.db.get.micros''),
     (DB_WRITE, ''rocksdb.db.write.micros''),
     (COMPACTION_TIME, ''rocksdb.compaction.times.micros''),
     (TABLE_SYNC_MICROS, ''rocksdb.table.sync.micros''),
     (COMPACTION_OUTFILE_SYNC_MICROS, ''rocksdb.compaction.outfile.sync.micros''),
     (WAL_FILE_SYNC_MICROS, ''rocksdb.wal.file.sync.micros''),
     (MANIFEST_FILE_SYNC_MICROS, ''rocksdb.manifest.file.sync.micros''),
     (TABLE_OPEN_IO_MICROS, ''rocksdb.table.open.io.micros''),
     (DB_MULTIGET, ''rocksdb.db.multiget.micros'')]"

subsection \<open>Reading a name table\<close>

text \<open>
  The entries of a table whose identifier has a given value, and the shape of an exported
  name: \<open>split_dots\<close> cuts a string at every \<open>.\<close>; a name is lowercase and
  dot-separated when it has at least two components, none of them empty, made of the
  letters \<open>a\<close> to \<open>z\<close> and decimal digits only (no upper-case letter, no other
  character), and begins with a letter. Digits are admitted because the header
  itself uses them (\<open>rocksdb.l0.slowdown.micros\<close>).
\<close>

definition ticker_entries :: "int \<Rightarrow> (Tickers \<times> string) list" where
  "ticker_entries n = filter (\<lambda>e. Tickers_val (fst e) = n) TickersNameMap"

definition histogram_entries :: "int \<Rightarrow> (Histograms \<times> string) list" where
  "histogram_entries n = filter (\<lambda>e. Histograms_val (fst e) = n) HistogramsNameMap"

definition is_lower_char :: "char \<Rightarrow> bool" where
  "is_lower_char c = (CHR ''a'' \<le> c \<and> c \<le> CHR ''z'')"

definition is_digit_char :: "char \<Rightarrow> bool" where
  "is_digit_char c = (CHR ''0'' \<le> c \<and> c \<le> CHR ''9'')"

fun split_dots :: "string \<Rightarrow> string list" where
  "split_dots [] = [[]]"
| "split_dots (c # cs) =
     (if c = CHR ''.'' then [] # split_dots cs
      else (case split_dots cs of
              [] \<Rightarrow> [[c]]
            | s # ss \<Rightarrow> (c # s) # ss))"

definition lowercase_component :: "string \<Rightarrow> bool" where
  "lowercase_component s =
     (0 < length s \<and> list_all (\<lambda>c. is_lower_char c \<or> is_digit_char c) s)"

definition lowercase_dotted :: "string \<Rightarrow> bool" where
  "lowercase_dotted name =
     (0 < length name \<and> 2 \<le> length (split_dots name) \<and>
      list_all lowercase_component (split_dots name) \<and>
      is_lower_char (hd name))"

section \<open>The class Ticker\<close>

text \<open>
  \<open>std::atomic_uint_fast64_t count_\<close> is an unsigned 64-bit counter; the member is
  called \<open>count_m\<close> here. The constructor sets it to 0. \<open>recordTick()\<close> is
  \<open>count_++\<close>; \<open>recordTick(int count)\<close> is \<open>count_ += count\<close>, where the
  32-bit signed argument is converted to the counter's unsigned 64-bit type (sign
  extension, \<open>scast\<close>) before the wrapping addition.
\<close>

record Ticker =
  count_m :: "64 word"

definition Ticker_new :: Ticker where
  "Ticker_new = \<lparr>count_m = 0\<rparr>"

definition recordTick :: "Ticker \<Rightarrow> Ticker" where
  "recordTick t = t\<lparr>count_m := count_m t + 1\<rparr>"

definition recordTick_count :: "32 word \<Rightarrow> Ticker \<Rightarrow> Ticker" where
  "recordTick_count c t = t\<lparr>count_m := count_m t + scast c\<rparr>"

definition getCount :: "Ticker \<Rightarrow> 64 word" where
  "getCount t = count_m t"

text \<open>
  A sequence of calls on one Ticker: each call is one of the two overloads. The
  increment a call asks for is 1 for the overload without argument and the value of
  the \<open>int\<close> argument otherwise.
\<close>

datatype tick = Tick | TickBy "32 word"

fun apply_tick :: "tick \<Rightarrow> Ticker \<Rightarrow> Ticker" where
  "apply_tick Tick t = recordTick t"
| "apply_tick (TickBy c) t = recordTick_count c t"

fun tick_amount :: "tick \<Rightarrow> int" where
  "tick_amount Tick = 1"
| "tick_amount (TickBy c) = sint c"

fun run_ticks :: "tick list \<Rightarrow> Ticker \<Rightarrow> Ticker" where
  "run_ticks [] t = t"
| "run_ticks (k # ks) t = run_ticks ks (apply_tick k t)"

section \<open>The free function RecordTick\<close>

text \<open>
  \<open>std::shared_ptr<Statistics>\<close> is a nullable handle: \<open>None\<close> is the null
  pointer, \<open>Some s\<close> points to the object \<open>s\<close>. \<open>Statistics::recordTick\<close> is pure
  virtual, so what \<open>RecordTick\<close> does to the world is the virtual call it makes: the
  state is the trace of calls made so far, and a call appends one entry carrying the
  receiver and both arguments.

  \<open>assert\<close> is the macro of \<open><cassert>\<close>: with \<open>NDEBUG\<close> defined it expands to
  nothing, otherwise a false condition aborts the process. The flag \<open>ndebug\<close> says
  which build is meant. The conditions compare \<open>size()\<close> with an enumerator minus
  one; all values involved are small and non-negative, so the comparison is the one on
  integers.
\<close>

datatype failure = AssertionFailed

datatype call = Statistics_recordTick nat Tickers "64 word"

definition histograms_assertion :: bool where
  "histograms_assertion =
     (int (length HistogramsNameMap) = Histograms_val HISTOGRAM_ENUM_MAX - 1)"

definition tickers_assertion :: bool where
  "tickers_assertion =
     (int (length TickersNameMap) = Tickers_val TICKER_ENUM_MAX - 1)"

definition RecordTick ::
  "bool \<Rightarrow> nat option \<Rightarrow> Tickers \<Rightarrow> 64 word \<Rightarrow> call list \<Rightarrow> failure + call list" where
  "RecordTick ndebug statistics ticker count trace =
     (if \<not> ndebug \<and> \<not> histograms_assertion then Inl AssertionFailed
      else if \<not> ndebug \<and> \<not> tickers_assertion then Inl AssertionFailed
      else (case statistics of
              None \<Rightarrow> Inr trace
            | Some s \<Rightarrow> Inr (trace @ [Statistics_recordTick s ticker count])))"

text \<open>The call \<open>RecordTick(statistics, ticker)\<close>: the default argument is 1.\<close>

definition RecordTick_default ::
  "bool \<Rightarrow> nat option \<Rightarrow> Tickers \<Rightarrow> call list \<Rightarrow> failure + call list" where
  "RecordTick_default ndebug statistics ticker trace =
     RecordTick ndebug statistics ticker 1 trace"

section \<open>The histogram engine\<close>

text \<open>
  Modelled from the spec: class \<open>Histogram\<close> of the header is pure virtual, and no
  implementation of \<open>Clear\<close>, \<open>Add\<close>, \<open>Median\<close>, \<open>Percentile\<close>, \<open>Average\<close> or
  \<open>StandardDeviation\<close> is among the sources. The engine below follows the
  HistogramEngine of the specification: one count per bucket, a running sum, a
  running sum of squares and a running number of samples. The bucket boundaries are
  fixed but not given, so they are the parameter \<open>limits\<close> (the upper bound of each
  bucket, ascending; the first bucket starts at 0). The results are doubles in the
  header and reals here.
\<close>

record HistogramEngine =
  bucketCounts :: "nat list"
  runningSum :: nat
  sumSquares :: nat
  totalSamples :: nat

definition HistogramEngine_new :: "nat list \<Rightarrow> HistogramEngine" where
  "HistogramEngine_new limits =
     \<lparr>bucketCounts = replicate (length limits) 0, runningSum = 0, sumSquares = 0,
      totalSamples = 0\<rparr>"

text \<open>Modelled from the spec: \<open>clear()\<close> resets every bucket and the three totals.\<close>

definition Clear :: "HistogramEngine \<Rightarrow> HistogramEngine" where
  "Clear h =
     \<lparr>bucketCounts = replicate (length (bucketCounts h)) 0, runningSum = 0,
      sumSquares = 0, totalSamples = 0\<rparr>"

text \<open>
  Modelled from the spec: \<open>add(value)\<close> increments the bucket whose range contains
  the value, values beyond the last boundary going to the last bucket, and
  accumulates the value, its square and the number of samples.
\<close>

fun bucket_of :: "nat list \<Rightarrow> nat \<Rightarrow> nat" where
  "bucket_of [] v = 0"
| "bucket_of [l] v = 0"
| "bucket_of (l # l' # ls) v = (if v \<le> l then 0 else Suc (bucket_of (l' # ls) v))"

definition Add :: "nat list \<Rightarrow> nat \<Rightarrow> HistogramEngine \<Rightarrow> HistogramEngine" where
  "Add limits v h =
     (let i = bucket_of limits v in
      h\<lparr>bucketCounts :=
           (if i < length (bucketCounts h)
            then (bucketCounts h)[i := bucketCounts h ! i + 1]
            else bucketCounts h),
        runningSum := runningSum h + v,
        sumSquares := sumSquares h + v * v,
        totalSamples := totalSamples h + 1\<rparr>)"

text \<open>
  Modelled from the spec: \<open>percentile(p)\<close> walks the buckets in ascending order,
  accumulating counts until the running total reaches \<open>p / 100 * totalSamples\<close>, and
  interpolates linearly between the bounds of the bucket it stops in; past the last
  bucket the estimate is the last upper bound. With no samples it returns 0.
  \<open>median()\<close> is \<open>percentile(50)\<close>.
\<close>

fun percentile_walk :: "real \<Rightarrow> real \<Rightarrow> real \<Rightarrow> (nat \<times> nat) list \<Rightarrow> real" where
  "percentile_walk threshold seen lower [] = lower"
| "percentile_walk threshold seen lower ((upper, n) # rest) =
     (if threshold \<le> seen + real n
      then lower + (real upper - lower) * (if n = 0 then 0 else (threshold - seen) / real n)
      else percentile_walk threshold (seen + real n) (real upper) rest)"

definition Percentile :: "nat list \<Rightarrow> HistogramEngine \<Rightarrow> real \<Rightarrow> real" where
  "Percentile limits h p =
     (if totalSamples h = 0 then 0
      else percentile_walk (p / 100 * real (totalSamples h)) 0 0
             (zip limits (bucketCounts h)))"

definition Median :: "nat list \<Rightarrow> HistogramEngine \<Rightarrow> real" where
  "Median limits h = Percentile limits h 50"

text \<open>
  Modelled from the spec: \<open>average()\<close> is \<open>runningSum / totalSamples\<close>, and 0 with no
  samples; \<open>standardDeviation()\<close> is
  \<open>sqrt(max(0, sumSquares / totalSamples - average^2))\<close>, and 0 with no samples (the
  specification's rule that with zero samples every derived statistic is 0).
\<close>

definition Average :: "HistogramEngine \<Rightarrow> real" where
  "Average h =
     (if totalSamples h = 0 then 0 else real (runningSum h) / real (totalSamples h))"

definition StandardDeviation :: "HistogramEngine \<Rightarrow> real" where
  "StandardDeviation h =
     (if totalSamples h = 0 then 0
      else sqrt (max 0 (real (sumSquares h) / real (totalSamples h) - (Average h)\<^sup>2)))"

section \<open>The statistics registry\<close>

text \<open>
  Modelled from the spec: \<open>CreateDBStatistics()\<close> is only declared in the header, and
  the class it instantiates is not among the sources. Following the specification,
  the registry owns one Ticker per ticker identifier and one histogram engine per
  histogram identifier, all zero-valued at construction, and \<open>getTickerCount\<close>
  forwards to \<open>getCount\<close> of the Ticker of the identifier, read as the signed
  \<open>long\<close> the header declares. An identifier outside the tables is a programming
  error: \<open>None\<close>.
\<close>

record StatisticsRegistry =
  tickers :: "Ticker list"
  histograms :: "HistogramEngine list"

definition CreateDBStatistics :: "nat list \<Rightarrow> StatisticsRegistry" where
  "CreateDBStatistics limits =
     \<lparr>tickers = replicate (nat (Tickers_val TICKER_ENUM_MAX)) Ticker_new,
      histograms =
        replicate (nat (Histograms_val HISTOGRAM_ENUM_MAX)) (HistogramEngine_new limits)\<rparr>"

definition getTickerCount :: "StatisticsRegistry \<Rightarrow> Tickers \<Rightarrow> int option" where
  "getTickerCount reg tickerType =
     (if Tickers_val tickerType < int (length (tickers reg))
      then Some (sint (getCount (tickers reg ! nat (Tickers_val tickerType))))
      else None)"

section \<open>The name tables\<close>

lemma ticker_values_in_order:
  "map (\<lambda>e. Tickers_val (fst e)) TickersNameMap = map int [0..<21]"
  by (simp add: TickersNameMap_def upt_rec)

lemma histogram_values_in_order:
  "map (\<lambda>e. Histograms_val (fst e)) HistogramsNameMap = map int [0..<9]"
  by (simp add: HistogramsNameMap_def upt_rec)

lemma length_filter_eq_upt:
  "length (filter (\<lambda>i. i = k) [0..<m]) = (if k < m then 1 else 0)"
  by (induction m) auto

lemma length_filter_value:
  assumes "map f xs = map int [0..<m]" and "0 \<le> n" and "n < int m"
  shows "length (filter (\<lambda>e. f e = n) xs) = 1"
proof -
  have "length (filter (\<lambda>e. f e = n) xs) = length (filter (\<lambda>v. v = n) (map f xs))"
    by (simp add: filter_map comp_def)
  also have "\<dots> = length (filter (\<lambda>i. int i = n) [0..<m])"
    by (simp add: assms(1) filter_map comp_def)
  also have "\<dots> = length (filter (\<lambda>i. i = nat n) [0..<m])"
    using assms(2) by (intro arg_cong [where f = length] filter_cong) auto
  also have "\<dots> = 1"
    using assms(2,3) by (simp add: length_filter_eq_upt)
  finally show ?thesis .
qed

lemma nth_value_in_order:
  assumes "map f xs = map int [0..<m]" and "i < length xs"
  shows "f (xs ! i) = int i"
proof -
  have len: "length xs = m"
    using assms(1) by (metis length_map length_upt minus_nat.diff_0)
  have "f (xs ! i) = map f xs ! i"
    using assms(2) by simp
  also have "\<dots> = int i"
    using assms(2) len by (simp add: assms(1))
  finally show ?thesis .
qed

lemma ticker_names_shape: "list_all (\<lambda>e. lowercase_dotted (snd e)) TickersNameMap"
  unfolding TickersNameMap_def lowercase_dotted_def lowercase_component_def
    is_lower_char_def is_digit_char_def
  by simp

lemma histogram_names_shape: "list_all (\<lambda>e. lowercase_dotted (snd e)) HistogramsNameMap"
  unfolding HistogramsNameMap_def lowercase_dotted_def lowercase_component_def
    is_lower_char_def is_digit_char_def
  by simp

lemma ticker_names_distinct: "distinct (map snd TickersNameMap)"
  by (simp add: TickersNameMap_def)

lemma histogram_names_distinct: "distinct (map snd HistogramsNameMap)"
  by (simp add: HistogramsNameMap_def)

lemma distinct_names_same_entry:
  assumes "distinct (map snd m)" and "e1 \<in> set m" and "e2 \<in> set m" and "snd e1 = snd e2"
  shows "e1 = e2"
  using assms by (meson distinct_map inj_onD)

text \<open>
  C2. For every identifier value \<open>n\<close> with \<open>0 \<le> n < TICKER_ENUM_MAX\<close> exactly one
  entry of \<open>TickersNameMap\<close> carries the identifier of value \<open>n\<close>, and likewise for
  \<open>HistogramsNameMap\<close> below \<open>HISTOGRAM_ENUM_MAX\<close>; the number of entries of each table
  is \<open>TICKER_ENUM_MAX\<close> and \<open>HISTOGRAM_ENUM_MAX\<close> respectively; every name is a
  nonempty, lowercase, dot-separated string (lowercase letters and digits between the
  dots).
\<close>

theorem name_tables_one_entry_per_identifier:
  "(\<forall>n. 0 \<le> n \<and> n < Tickers_val TICKER_ENUM_MAX \<longrightarrow> length (ticker_entries n) = 1) \<and>
   (\<forall>n. 0 \<le> n \<and> n < Histograms_val HISTOGRAM_ENUM_MAX \<longrightarrow>
      length (histogram_entries n) = 1) \<and>
   int (length TickersNameMap) = Tickers_val TICKER_ENUM_MAX \<and>
   int (length HistogramsNameMap) = Histograms_val HISTOGRAM_ENUM_MAX \<and>
   list_all (\<lambda>e. lowercase_dotted (snd e)) TickersNameMap \<and>
   list_all (\<lambda>e. lowercase_dotted (snd e)) HistogramsNameMap"
proof (intro conjI allI impI)
  fix n :: int
  assume "0 \<le> n \<and> n < Tickers_val TICKER_ENUM_MAX"
  then show "length (ticker_entries n) = 1"
    unfolding ticker_entries_def
    by (intro length_filter_value [OF ticker_values_in_order]) simp_all
next
  fix n :: int
  assume "0 \<le> n \<and> n < Histograms_val HISTOGRAM_ENUM_MAX"
  then show "length (histogram_entries n) = 1"
    unfolding histogram_entries_def
    by (intro length_filter_value [OF histogram_values_in_order]) simp_all
next
  show "int (length TickersNameMap) = Tickers_val TICKER_ENUM_MAX"
    by (simp add: TickersNameMap_def)
  show "int (length HistogramsNameMap) = Histograms_val HISTOGRAM_ENUM_MAX"
    by (simp add: HistogramsNameMap_def)
  show "list_all (\<lambda>e. lowercase_dotted (snd e)) TickersNameMap"
    by (rule ticker_names_shape)
  show "list_all (\<lambda>e. lowercase_dotted (snd e)) HistogramsNameMap"
    by (rule histogram_names_shape)
qed

theorem name_tables_one_entry_per_identifier_witness:
  "(0::int) \<le> 9 \<and> 9 < Tickers_val TICKER_ENUM_MAX \<and>
   ticker_entries 9 = [(BYTES_READ, ''rocksdb.bytes.read'')] \<and>
   length (ticker_entries 9) = 1 \<and>
   (0::int) \<le> 8 \<and> 8 < Histograms_val HISTOGRAM_ENUM_MAX \<and>
   histogram_entries 8 = [(DB_MULTIGET, ''rocksdb.db.multiget.micros'')] \<and>
   length (histogram_entries 8) = 1"
proof -
  have t: "(0::int) \<le> 9 \<and> 9 < Tickers_val TICKER_ENUM_MAX"
    by simp
  have h: "(0::int) \<le> 8 \<and> 8 < Histograms_val HISTOGRAM_ENUM_MAX"
    by simp
  from name_tables_one_entry_per_identifier t
  have "length (ticker_entries 9) = 1"
    by blast
  moreover from name_tables_one_entry_per_identifier h
  have "length (histogram_entries 8) = 1"
    by blast
  moreover have "ticker_entries 9 = [(BYTES_READ, ''rocksdb.bytes.read'')]"
    by (simp add: ticker_entries_def TickersNameMap_def)
  moreover have "histogram_entries 8 = [(DB_MULTIGET, ''rocksdb.db.multiget.micros'')]"
    by (simp add: histogram_entries_def HistogramsNameMap_def)
  ultimately show ?thesis
    using t h by simp
qed

text \<open>
  C9. No two entries of \<open>TickersNameMap\<close> with distinct identifiers share a name, and
  no two entries of \<open>HistogramsNameMap\<close> with distinct identifiers share a name: the
  names of each table are pairwise distinct.
\<close>

theorem names_identify_identifiers:
  "(\<forall>e1 e2. e1 \<in> set TickersNameMap \<and> e2 \<in> set TickersNameMap \<and> fst e1 \<noteq> fst e2
      \<longrightarrow> snd e1 \<noteq> snd e2) \<and>
   (\<forall>e1 e2. e1 \<in> set HistogramsNameMap \<and> e2 \<in> set HistogramsNameMap \<and> fst e1 \<noteq> fst e2
      \<longrightarrow> snd e1 \<noteq> snd e2) \<and>
   distinct (map snd TickersNameMap) \<and> distinct (map snd HistogramsNameMap)"
  using distinct_names_same_entry [OF ticker_names_distinct]
    distinct_names_same_entry [OF histogram_names_distinct]
    ticker_names_distinct histogram_names_distinct
  by blast

theorem names_identify_identifiers_witness:
  "TickersNameMap ! 11 \<in> set TickersNameMap \<and> TickersNameMap ! 12 \<in> set TickersNameMap \<and>
   fst (TickersNameMap ! 11) \<noteq> fst (TickersNameMap ! 12) \<and>
   snd (TickersNameMap ! 11) \<noteq> snd (TickersNameMap ! 12) \<and>
   HistogramsNameMap ! 0 \<in> set HistogramsNameMap \<and>
   HistogramsNameMap ! 8 \<in> set HistogramsNameMap \<and>
   fst (HistogramsNameMap ! 0) \<noteq> fst (HistogramsNameMap ! 8) \<and>
   snd (HistogramsNameMap ! 0) \<noteq> snd (HistogramsNameMap ! 8)"
proof -
  have t: "TickersNameMap ! 11 \<in> set TickersNameMap \<and>
      TickersNameMap ! 12 \<in> set TickersNameMap \<and>
      fst (TickersNameMap ! 11) \<noteq> fst (TickersNameMap ! 12)"
    by (simp add: TickersNameMap_def)
  have h: "HistogramsNameMap ! 0 \<in> set HistogramsNameMap \<and>
      HistogramsNameMap ! 8 \<in> set HistogramsNameMap \<and>
      fst (HistogramsNameMap ! 0) \<noteq> fst (HistogramsNameMap ! 8)"
    by (simp add: HistogramsNameMap_def)
  from names_identify_identifiers t
  have "snd (TickersNameMap ! 11) \<noteq> snd (TickersNameMap ! 12)"
    by blast
  moreover from names_identify_identifiers h
  have "snd (HistogramsNameMap ! 0) \<noteq> snd (HistogramsNameMap ! 8)"
    by blast
  ultimately show ?thesis
    using t h by blast
qed

text \<open>
  C10. Both tables are listed in identifier order without gaps: the entry at index
  \<open>i\<close> of \<open>TickersNameMap\<close> carries the identifier of value \<open>i\<close>, the entry at index
  \<open>i\<close> of \<open>HistogramsNameMap\<close> carries the identifier of value \<open>i\<close>, and so the entry
  found at the position given by an identifier's value is the entry of that
  identifier.
\<close>

theorem name_tables_in_identifier_order:
  "(\<forall>i. i < length TickersNameMap \<longrightarrow> Tickers_val (fst (TickersNameMap ! i)) = int i) \<and>
   (\<forall>i. i < length HistogramsNameMap \<longrightarrow>
      Histograms_val (fst (HistogramsNameMap ! i)) = int i) \<and>
   (\<forall>t. Tickers_val t < Tickers_val TICKER_ENUM_MAX \<longrightarrow>
      fst (TickersNameMap ! nat (Tickers_val t)) = t) \<and>
   (\<forall>h. Histograms_val h < Histograms_val HISTOGRAM_ENUM_MAX \<longrightarrow>
      fst (HistogramsNameMap ! nat (Histograms_val h)) = h)"
proof (intro conjI allI impI)
  fix i
  assume "i < length TickersNameMap"
  then show "Tickers_val (fst (TickersNameMap ! i)) = int i"
    by (rule nth_value_in_order [OF ticker_values_in_order])
next
  fix i
  assume "i < length HistogramsNameMap"
  then show "Histograms_val (fst (HistogramsNameMap ! i)) = int i"
    by (rule nth_value_in_order [OF histogram_values_in_order])
next
  fix t
  assume "Tickers_val t < Tickers_val TICKER_ENUM_MAX"
  then show "fst (TickersNameMap ! nat (Tickers_val t)) = t"
    by (cases t) (simp_all add: TickersNameMap_def)
next
  fix h
  assume "Histograms_val h < Histograms_val HISTOGRAM_ENUM_MAX"
  then show "fst (HistogramsNameMap ! nat (Histograms_val h)) = h"
    by (cases h) (simp_all add: HistogramsNameMap_def)
qed

theorem name_tables_in_identifier_order_witness:
  "(13::nat) < length TickersNameMap \<and>
   Tickers_val (fst (TickersNameMap ! 13)) = 13 \<and>
   (4::nat) < length HistogramsNameMap \<and>
   Histograms_val (fst (HistogramsNameMap ! 4)) = 4 \<and>
   Tickers_val NO_ITERATORS < Tickers_val TICKER_ENUM_MAX \<and>
   TickersNameMap ! nat (Tickers_val NO_ITERATORS) = (NO_ITERATORS, ''rocksdb.num.iterators'') \<and>
   fst (TickersNameMap ! nat (Tickers_val NO_ITERATORS)) = NO_ITERATORS \<and>
   Histograms_val DB_GET < Histograms_val HISTOGRAM_ENUM_MAX \<and>
   fst (HistogramsNameMap ! nat (Histograms_val DB_GET)) = DB_GET"
proof -
  have a: "(13::nat) < length TickersNameMap"
    by (simp add: TickersNameMap_def)
  have b: "(4::nat) < length HistogramsNameMap"
    by (simp add: HistogramsNameMap_def)
  have c: "Tickers_val NO_ITERATORS < Tickers_val TICKER_ENUM_MAX"
    by simp
  have d: "Histograms_val DB_GET < Histograms_val HISTOGRAM_ENUM_MAX"
    by simp
  have e: "TickersNameMap ! nat (Tickers_val NO_ITERATORS) =
      (NO_ITERATORS, ''rocksdb.num.iterators'')"
    by (simp add: TickersNameMap_def)
  from name_tables_in_identifier_order a
  have "Tickers_val (fst (TickersNameMap ! 13)) = int 13"
    by blast
  moreover from name_tables_in_identifier_order b
  have "Histograms_val (fst (HistogramsNameMap ! 4)) = int 4"
    by blast
  moreover from name_tables_in_identifier_order c
  have "fst (TickersNameMap ! nat (Tickers_val NO_ITERATORS)) = NO_ITERATORS"
    by blast
  moreover from name_tables_in_identifier_order d
  have "fst (HistogramsNameMap ! nat (Histograms_val DB_GET)) = DB_GET"
    by blast
  ultimately show ?thesis
    using a b c d e by simp
qed

section \<open>The assertions of RecordTick\<close>

lemma assertions_false: "\<not> histograms_assertion" "\<not> tickers_assertion"
  by (simp_all add: histograms_assertion_def tickers_assertion_def
      HistogramsNameMap_def TickersNameMap_def)

lemma RecordTick_assertions_enabled:
  "RecordTick False statistics ticker count trace = Inl AssertionFailed"
  by (simp add: RecordTick_def assertions_false)

text \<open>
  With assertions compiled out (\<open>NDEBUG\<close>) the body is the null check alone: a null
  handle leaves the trace as it was, and a handle to an object adds the one call
  \<open>recordTick(ticker, count)\<close> on that object, with count 1 when the argument is
  omitted.
\<close>

lemma RecordTick_ndebug_null:
  "RecordTick True None ticker count trace = Inr trace"
  by (simp add: RecordTick_def)

lemma RecordTick_ndebug_forwards:
  "RecordTick True (Some s) ticker count trace =
     Inr (trace @ [Statistics_recordTick s ticker count])"
  by (simp add: RecordTick_def)

lemma RecordTick_default_ndebug_forwards:
  "RecordTick_default True (Some s) ticker trace =
     Inr (trace @ [Statistics_recordTick s ticker 1])"
  by (simp add: RecordTick_default_def RecordTick_def)

text \<open>
  C1. The claim is that both conditions asserted by \<open>RecordTick\<close> hold for the tables
  of the header, so that every call passes them. They do not:
  \<open>HistogramsNameMap.size()\<close> is 9 and \<open>HISTOGRAM_ENUM_MAX - 1\<close> is 8,
  \<open>TickersNameMap.size()\<close> is 21 and \<open>TICKER_ENUM_MAX - 1\<close> is 20. Each table has
  one entry per identifier, so its size is the sentinel, not the sentinel minus one,
  and with assertions enabled the call \<open>RecordTick(s, BLOCK_CACHE_MISS, 1)\<close> stops at
  the first assertion.
\<close>

theorem RecordTick_assertions_do_not_hold:
  "int (length HistogramsNameMap) = 9 \<and> Histograms_val HISTOGRAM_ENUM_MAX - 1 = 8 \<and>
   int (length TickersNameMap) = 21 \<and> Tickers_val TICKER_ENUM_MAX - 1 = 20 \<and>
   \<not> histograms_assertion \<and> \<not> tickers_assertion \<and>
   RecordTick False (Some 0) BLOCK_CACHE_MISS 1 [] = Inl AssertionFailed"
  by (simp add: RecordTick_def histograms_assertion_def tickers_assertion_def
      HistogramsNameMap_def TickersNameMap_def)

text \<open>
  C3. The claim is that \<open>RecordTick\<close> with a null handle returns normally and changes
  nothing. With assertions enabled the call \<open>RecordTick(nullptr, BLOCK_CACHE_MISS, 1)\<close>
  does not return: the assertion on \<open>HistogramsNameMap\<close> fails before the null check
  is reached. With assertions compiled out the same call returns and leaves the
  trace of calls empty.
\<close>

theorem RecordTick_null_handle_aborts:
  "RecordTick False None BLOCK_CACHE_MISS 1 [] = Inl AssertionFailed \<and>
   RecordTick True None BLOCK_CACHE_MISS 1 [] = Inr []"
  by (simp add: RecordTick_def histograms_assertion_def HistogramsNameMap_def)

text \<open>
  C6. The claim is that \<open>RecordTick\<close> with a non-null handle forwards exactly one call
  \<open>recordTick(ticker, count)\<close> to the object, with count 1 when the argument is
  omitted. With assertions enabled the calls \<open>RecordTick(s, BYTES_READ, 7)\<close> and
  \<open>RecordTick(s, BYTES_READ)\<close> stop at the failing assertion and forward nothing.
  With assertions compiled out they forward the one call, with counts 7 and 1.
\<close>

theorem RecordTick_present_handle_aborts:
  "RecordTick False (Some 0) BYTES_READ 7 [] = Inl AssertionFailed \<and>
   RecordTick_default False (Some 0) BYTES_READ [] = Inl AssertionFailed \<and>
   RecordTick True (Some 0) BYTES_READ 7 [] = Inr [Statistics_recordTick 0 BYTES_READ 7] \<and>
   RecordTick_default True (Some 0) BYTES_READ [] = Inr [Statistics_recordTick 0 BYTES_READ 1]"
  by (simp add: RecordTick_default_def RecordTick_def histograms_assertion_def
      HistogramsNameMap_def)

section \<open>The counter of a Ticker\<close>

lemma getCount_Ticker_new: "getCount Ticker_new = 0"
  by (simp add: getCount_def Ticker_new_def)

lemma apply_tick_count:
  "getCount (apply_tick k t) = getCount t + word_of_int (tick_amount k)"
  by (cases k) (simp_all add: getCount_def recordTick_def recordTick_count_def)

lemma run_ticks_count:
  "getCount (run_ticks ks t) = getCount t + word_of_int (sum_list (map tick_amount ks))"
proof (induction ks arbitrary: t)
  case Nil
  show ?case by simp
next
  case (Cons k ks)
  show ?case by (simp add: Cons.IH apply_tick_count)
qed

lemma uint_add_int_no_wrap:
  fixes w :: "64 word"
  assumes "0 \<le> d" and "uint w + d < 2 ^ 64"
  shows "uint (w + word_of_int d) = uint w + d"
proof -
  have "uint (w + word_of_int d) = (uint w + d) mod 2 ^ 64"
    by (simp only: uint_word_ariths uint_word_of_int_eq take_bit_eq_mod mod_add_right_eq
        len_of_numeral_defs)
      (simp add: mod_add_right_eq)
  moreover have "0 \<le> uint w + d"
    using assms(1) by simp
  ultimately show ?thesis
    using assms(2) by (simp only: mod_pos_pos_trivial)
qed

lemma recordTick_no_wrap:
  assumes "uint (getCount t) + 1 < 2 ^ 64"
  shows "uint (getCount (recordTick t)) = uint (getCount t) + 1"
proof -
  have "uint (count_m t + word_of_int 1) = uint (count_m t) + 1"
    using assms by (intro uint_add_int_no_wrap) (simp_all only: getCount_def zero_le_one)
  then show ?thesis
    by (simp add: getCount_def recordTick_def)
qed

lemma recordTick_count_no_wrap:
  assumes "0 \<le> sint c" and "uint (getCount t) + sint c < 2 ^ 64"
  shows "uint (getCount (recordTick_count c t)) = uint (getCount t) + sint c"
proof -
  have sc: "(scast c :: 64 word) = word_of_int (sint c)"
    by (rule scast_eq)
  have "uint (count_m t + word_of_int (sint c)) = uint (count_m t) + sint c"
    using assms by (intro uint_add_int_no_wrap) (simp_all only: getCount_def)
  then have "uint (count_m t + scast c) = uint (count_m t) + sint c"
    by (simp only: sc)
  then show ?thesis
    by (simp add: getCount_def recordTick_count_def)
qed

text \<open>
  C4. For every finite sequence of \<open>recordTick\<close> calls applied in order to a freshly
  constructed Ticker, \<open>getCount()\<close> afterwards is the sum of the increments in
  unsigned 64-bit arithmetic: as a 64-bit word it is the sum, and read as a number
  it is the sum modulo \<open>2^64\<close>. The increment of a call is its \<open>int\<close> argument, or 1
  for the overload without argument.
\<close>

theorem Ticker_count_is_sum_of_increments:
  "getCount (run_ticks ks Ticker_new) = word_of_int (sum_list (map tick_amount ks)) \<and>
   uint (getCount (run_ticks ks Ticker_new)) = sum_list (map tick_amount ks) mod 2 ^ 64"
proof -
  have eq: "getCount (run_ticks ks Ticker_new) = word_of_int (sum_list (map tick_amount ks))"
    by (simp add: run_ticks_count getCount_Ticker_new)
  have "uint (word_of_int (sum_list (map tick_amount ks)) :: 64 word) =
      sum_list (map tick_amount ks) mod 2 ^ 64"
    by (simp add: uint_word_of_int_eq take_bit_eq_mod)
  with eq show ?thesis by simp
qed

theorem Ticker_count_is_sum_of_increments_witness:
  "sum_list (map tick_amount [Tick, TickBy 5, TickBy 36]) = 42 \<and>
   getCount (run_ticks [Tick, TickBy 5, TickBy 36] Ticker_new) = 42"
  using Ticker_count_is_sum_of_increments [of "[Tick, TickBy 5, TickBy 36]"]
  by simp

text \<open>
  C5, as stated: after any \<open>recordTick\<close> call on any Ticker, \<open>getCount()\<close> is at least
  what it was before. It fails in two ways. A Ticker that has counted 5 and then
  receives \<open>recordTick(-1)\<close> reads 4; a Ticker at \<open>2^64 - 1\<close> that receives
  \<open>recordTick()\<close> reads 0.
\<close>

theorem Ticker_not_monotone_counterexample:
  "getCount (run_ticks [TickBy 5] Ticker_new) = 5 \<and>
   getCount (recordTick_count (- 1) (run_ticks [TickBy 5] Ticker_new)) = 4 \<and>
   \<not> getCount (run_ticks [TickBy 5] Ticker_new)
       \<le> getCount (recordTick_count (- 1) (run_ticks [TickBy 5] Ticker_new)) \<and>
   getCount \<lparr>count_m = 18446744073709551615\<rparr> = 18446744073709551615 \<and>
   getCount (recordTick \<lparr>count_m = 18446744073709551615\<rparr>) = 0 \<and>
   \<not> getCount \<lparr>count_m = 18446744073709551615\<rparr>
       \<le> getCount (recordTick \<lparr>count_m = 18446744073709551615\<rparr>)"
  by (simp add: getCount_def recordTick_def recordTick_count_def Ticker_new_def)

text \<open>
  C5, amended: for every Ticker state and every \<open>recordTick\<close> call whose increment (1
  without argument, the \<open>int\<close> argument otherwise) is not negative and does not carry
  the count to \<open>2^64\<close> or beyond, \<open>getCount()\<close> after the call is the value before plus
  the increment, and so is at least the value before.
\<close>

theorem Ticker_monotone_without_wrap:
  "(uint (getCount t) + 1 < 2 ^ 64 \<longrightarrow>
      uint (getCount (recordTick t)) = uint (getCount t) + 1 \<and>
      getCount t \<le> getCount (recordTick t)) \<and>
   (0 \<le> sint c \<and> uint (getCount t) + sint c < 2 ^ 64 \<longrightarrow>
      uint (getCount (recordTick_count c t)) = uint (getCount t) + sint c \<and>
      getCount t \<le> getCount (recordTick_count c t))"
proof (intro conjI impI)
  assume a: "uint (getCount t) + 1 < 2 ^ 64"
  show eq: "uint (getCount (recordTick t)) = uint (getCount t) + 1"
    by (rule recordTick_no_wrap [OF a])
  have "uint (getCount t) \<le> uint (getCount t) + 1"
    by simp
  then show "getCount t \<le> getCount (recordTick t)"
    by (simp only: word_le_def eq)
next
  assume a: "0 \<le> sint c \<and> uint (getCount t) + sint c < 2 ^ 64"
  show eq: "uint (getCount (recordTick_count c t)) = uint (getCount t) + sint c"
    using a by (intro recordTick_count_no_wrap) simp_all
  have "uint (getCount t) \<le> uint (getCount t) + sint c"
    using a by simp
  then show "getCount t \<le> getCount (recordTick_count c t)"
    by (simp only: word_le_def eq)
qed

theorem Ticker_monotone_without_wrap_witness:
  "uint (getCount \<lparr>count_m = 40\<rparr>) + 1 < 2 ^ 64 \<and>
   getCount (recordTick \<lparr>count_m = 40\<rparr>) = 41 \<and>
   getCount \<lparr>count_m = 40\<rparr> \<le> getCount (recordTick \<lparr>count_m = 40\<rparr>) \<and>
   0 \<le> sint (2 :: 32 word) \<and>
   uint (getCount \<lparr>count_m = 40\<rparr>) + sint (2 :: 32 word) < 2 ^ 64 \<and>
   getCount (recordTick_count 2 \<lparr>count_m = 40\<rparr>) = 42 \<and>
   getCount \<lparr>count_m = 40\<rparr> \<le> getCount (recordTick_count 2 \<lparr>count_m = 40\<rparr>)"
proof -
  have a: "uint (getCount \<lparr>count_m = 40\<rparr>) + 1 < 2 ^ 64"
    by (simp add: getCount_def)
  have b: "0 \<le> sint (2 :: 32 word) \<and>
      uint (getCount \<lparr>count_m = 40\<rparr>) + sint (2 :: 32 word) < 2 ^ 64"
    by (simp add: getCount_def)
  from Ticker_monotone_without_wrap [of "\<lparr>count_m = 40\<rparr>" 2] a
  have c: "getCount \<lparr>count_m = 40\<rparr> \<le> getCount (recordTick \<lparr>count_m = 40\<rparr>)"
    by blast
  from Ticker_monotone_without_wrap [of "\<lparr>count_m = 40\<rparr>" 2] b
  have d: "getCount \<lparr>count_m = 40\<rparr> \<le> getCount (recordTick_count 2 \<lparr>count_m = 40\<rparr>)"
    by blast
  have e: "getCount (recordTick \<lparr>count_m = 40\<rparr>) = 41"
    by (simp add: getCount_def recordTick_def)
  have f: "getCount (recordTick_count 2 \<lparr>count_m = 40\<rparr>) = 42"
    by (simp add: getCount_def recordTick_count_def)
  from a b c d e f show ?thesis
    by blast
qed

text \<open>
  C7. A freshly constructed Ticker is zero-valued: before any \<open>recordTick\<close> call
  \<open>getCount()\<close> returns 0; and a newly built registry, holding one fresh Ticker per
  identifier, reports count 0 for every ticker identifier.
\<close>

theorem fresh_Ticker_is_zero:
  "getCount Ticker_new = 0 \<and> getCount (run_ticks [] Ticker_new) = 0 \<and>
   (\<forall>t. Tickers_val t < Tickers_val TICKER_ENUM_MAX \<longrightarrow>
      getTickerCount (CreateDBStatistics limits) t = Some 0)"
proof (intro conjI allI impI)
  show "getCount Ticker_new = 0"
    by (rule getCount_Ticker_new)
  show "getCount (run_ticks [] Ticker_new) = 0"
    by (simp add: getCount_Ticker_new)
next
  fix t
  assume "Tickers_val t < Tickers_val TICKER_ENUM_MAX"
  then show "getTickerCount (CreateDBStatistics limits) t = Some 0"
    by (cases t) (simp_all add: getTickerCount_def CreateDBStatistics_def getCount_Ticker_new)
qed

theorem fresh_Ticker_is_zero_witness:
  "Tickers_val NUMBER_KEYS_READ < Tickers_val TICKER_ENUM_MAX \<and>
   getTickerCount (CreateDBStatistics [1, 2, 3]) NUMBER_KEYS_READ = Some 0"
proof -
  have a: "Tickers_val NUMBER_KEYS_READ < Tickers_val TICKER_ENUM_MAX"
    by simp
  from fresh_Ticker_is_zero [of "[1, 2, 3]"] a
  have "getTickerCount (CreateDBStatistics [1, 2, 3]) NUMBER_KEYS_READ = Some 0"
    by blast
  with a show ?thesis
    by simp
qed

section \<open>The empty histogram\<close>

text \<open>
  Every \<open>Add\<close> counts one more sample, so the engines without samples are the
  freshly built and the cleared ones.
\<close>

lemma totalSamples_Add: "totalSamples (Add limits v h) = totalSamples h + 1"
  by (simp add: Add_def Let_def)

lemma totalSamples_empty:
  "totalSamples (HistogramEngine_new limits) = 0" "totalSamples (Clear h) = 0"
  by (simp_all add: HistogramEngine_new_def Clear_def)

text \<open>
  C8. For a histogram that has received no samples (freshly built, or cleared),
  \<open>Median()\<close>, \<open>Percentile(p)\<close> for every \<open>p\<close> (in particular every \<open>p\<close> from 0 to
  100), \<open>Average()\<close> and \<open>StandardDeviation()\<close> all return 0; each is a value, none
  fails.
\<close>

theorem empty_histogram_statistics_are_zero:
  "Median limits (HistogramEngine_new limits) = 0 \<and>
   Percentile limits (HistogramEngine_new limits) p = 0 \<and>
   Average (HistogramEngine_new limits) = 0 \<and>
   StandardDeviation (HistogramEngine_new limits) = 0 \<and>
   Median limits (Clear h) = 0 \<and>
   Percentile limits (Clear h) p = 0 \<and>
   Average (Clear h) = 0 \<and>
   StandardDeviation (Clear h) = 0"
  by (simp add: Median_def Percentile_def Average_def StandardDeviation_def
      HistogramEngine_new_def Clear_def)

end
